theory Spec2Isabelle
  imports Main
begin

section \<open>The scoring adapter of the real-time web service notebook\<close>

text \<open>
  The notebook \<^verbatim>\<open>samples/realtime/realtimewebservices.ipynb\<close> defines two entry points,
  \<^verbatim>\<open>init\<close> and \<^verbatim>\<open>run\<close>, around calls into the Python standard library (\<^verbatim>\<open>json\<close>),
  PySpark (\<^verbatim>\<open>PipelineModel\<close>, \<^verbatim>\<open>sc\<close>, \<^verbatim>\<open>spark\<close>) and \<^verbatim>\<open>azuremlutilities\<close>.
  None of these libraries is part of the repository, so every library call is a field of
  the record \<open>lib\<close> below, and what the adapter alone decides is proved for every
  library. What only the library decides is proved over the library modelled from the
  spec further down. What the notebook itself decides is modelled in full: the two
  process-wide variables, the order of the statements, the arguments of each call, name
  resolution, list indexing and the lookup of a row field by name.
\<close>

subsection \<open>Python values and exceptions\<close>

text \<open>
  The values \<^verbatim>\<open>json.loads\<close> can produce, which are also the values of the cells of a
  collected row. A float is kept as the decimal \<open>m * 10^e\<close> it was written as
  (\<open>PFloat m e\<close>); no arithmetic is done on it anywhere in the adapter.
\<close>

datatype pyval =
    PNone
  | PBool bool
  | PInt int
  | PFloat int int
  | PStr string
  | PList "pyval list"
  | PDict "(string \<times> pyval) list"

text \<open>
  An uncaught exception. \<open>NameError x\<close> is Python's failure to resolve the global
  name \<open>x\<close>; \<open>IndexError\<close> is raised by indexing a list out of range; the others
  are raised inside library calls.
\<close>

datatype py_exception =
    NameError string
  | IndexError
  | ValueError string
  | TypeError string
  | IOError string
  | Py4JJavaError string

subsection \<open>Schemas and rows\<close>

text \<open>
  The schema artifact describes the named, typed columns of the training data
  (a Spark \<^verbatim>\<open>StructType\<close>).
\<close>

record struct_field =
  field_name :: string
  field_type :: string
  field_nullable :: bool

type_synonym struct_type = "struct_field list"

text \<open>
  A collected \<^verbatim>\<open>Row\<close>: its fields in order, each with its name. \<^verbatim>\<open>row['label']\<close>
  returns the value of the first field of that name and raises \<^verbatim>\<open>ValueError\<close> when
  the row has no such field.
\<close>

type_synonym row = "(string \<times> pyval) list"

definition row_getitem :: "row \<Rightarrow> string \<Rightarrow> py_exception + pyval" where
  "row_getitem r item =
     (case map_of r item of
        None \<Rightarrow> Inl (ValueError item)
      | Some v \<Rightarrow> Inr v)"

text \<open>Python's \<^verbatim>\<open>xs[0]\<close>: the first element, \<^verbatim>\<open>IndexError\<close> on the empty list.\<close>

definition list_first :: "'a list \<Rightarrow> py_exception + 'a" where
  "list_first xs = (case xs of [] \<Rightarrow> Inl IndexError | x # _ \<Rightarrow> Inr x)"

subsection \<open>The library calls the adapter makes\<close>

text \<open>
  One field for each library call of \<^verbatim>\<open>init\<close> and \<^verbatim>\<open>run\<close>, with the arguments the
  source passes. \<open>'m\<close> is a loaded \<^verbatim>\<open>PipelineModel\<close>, \<open>'rdd\<close> an RDD, \<open>'df\<close> a
  DataFrame. A call either raises (\<open>Inl\<close>) or returns (\<open>Inr\<close>). The two loaders take
  the path of the artifact; the artifacts on disk are fixed with the library.
  \<open>createDataFrame\<close> has the four positional parameters of
  \<^verbatim>\<open>SparkSession.createDataFrame(data, schema, samplingRatio, verifySchema)\<close>.
  The names \<^verbatim>\<open>sc\<close>, \<^verbatim>\<open>spark\<close>, \<^verbatim>\<open>azuremlutilities\<close> and the imported modules are
  provided by the hosting process and always resolve.
\<close>

record ('m, 'rdd, 'df) lib =
  PipelineModel_load :: "string \<Rightarrow> py_exception + 'm"
  loadSchema :: "string \<Rightarrow> py_exception + struct_type"
  json_loads :: "string \<Rightarrow> py_exception + pyval"
  parallelize :: "pyval \<Rightarrow> py_exception + 'rdd"
  createDataFrame :: "'rdd \<Rightarrow> struct_type \<Rightarrow> pyval \<Rightarrow> bool \<Rightarrow> py_exception + 'df"
  transform :: "'m \<Rightarrow> 'df \<Rightarrow> py_exception + 'df"
  collect :: "'df \<Rightarrow> py_exception + row list"

subsection \<open>Process-wide state\<close>

text \<open>
  The two module-level variables that \<^verbatim>\<open>init\<close> declares \<^verbatim>\<open>global\<close>. \<open>None\<close> is an
  unbound name.
\<close>

record 'm globals =
  pipeline :: "'m option"
  inputSchema :: "struct_type option"

definition unbound :: "'m globals" where
  "unbound = \<lparr>pipeline = None, inputSchema = None\<rparr>"

subsection \<open>init\<close>

text \<open>
  \<^verbatim>\<open>
  def init():
      from pyspark.ml import PipelineModel
      global pipeline
      pipeline = PipelineModel.load("housing.model")
      global inputSchema
      inputSchema=azuremlutilities.loadSchema("webserviceschema.json")
  \<close>
  The first assignment has taken effect when the second load is attempted.
\<close>

definition init ::
  "('m, 'rdd, 'df) lib \<Rightarrow> 'm globals \<Rightarrow> (py_exception + unit) \<times> 'm globals" where
  "init L g =
     (case PipelineModel_load L ''housing.model'' of
        Inl e \<Rightarrow> (Inl e, g)
      | Inr m \<Rightarrow>
          (let g1 = g\<lparr>pipeline := Some m\<rparr> in
           case loadSchema L ''webserviceschema.json'' of
             Inl e \<Rightarrow> (Inl e, g1)
           | Inr sch \<Rightarrow> (Inr (), g1\<lparr>inputSchema := Some sch\<rparr>)))"

subsection \<open>run\<close>

text \<open>
  \<^verbatim>\<open>
  def run(inputString):
      import json
      from pyspark.ml import PipelineModel
      input=json.loads(inputString)
      inputRDD=sc.parallelize(input)
      inputDF=spark.createDataFrame(inputRDD,inputSchema, None, False)
      score=pipeline.transform(inputDF)
      return score.collect()[0]['label']
  \<close>
  \<^verbatim>\<open>input\<close>, \<^verbatim>\<open>inputRDD\<close>, \<^verbatim>\<open>inputDF\<close> and \<^verbatim>\<open>score\<close> are locals of the call.
  \<^verbatim>\<open>inputSchema\<close> is resolved while the arguments of \<^verbatim>\<open>createDataFrame\<close> are
  evaluated, \<^verbatim>\<open>pipeline\<close> when the next statement starts; an unbound name raises
  \<^verbatim>\<open>NameError\<close> at that point. The function returns the outcome of the call and the
  process-wide state it leaves.
\<close>

definition run ::
  "('m, 'rdd, 'df) lib \<Rightarrow> 'm globals \<Rightarrow> string \<Rightarrow> (py_exception + pyval) \<times> 'm globals" where
  "run L g inputString =
     (case json_loads L inputString of
        Inl e \<Rightarrow> (Inl e, g)
      | Inr input \<Rightarrow>
     (case parallelize L input of
        Inl e \<Rightarrow> (Inl e, g)
      | Inr inputRDD \<Rightarrow>
     (case inputSchema g of
        None \<Rightarrow> (Inl (NameError ''inputSchema''), g)
      | Some sch \<Rightarrow>
     (case createDataFrame L inputRDD sch PNone False of
        Inl e \<Rightarrow> (Inl e, g)
      | Inr inputDF \<Rightarrow>
     (case pipeline g of
        None \<Rightarrow> (Inl (NameError ''pipeline''), g)
      | Some m \<Rightarrow>
     (case transform L m inputDF of
        Inl e \<Rightarrow> (Inl e, g)
      | Inr score \<Rightarrow>
     (case collect L score of
        Inl e \<Rightarrow> (Inl e, g)
      | Inr rows \<Rightarrow>
     (case list_first rows of
        Inl e \<Rightarrow> (Inl e, g)
      | Inr r \<Rightarrow> (row_getitem r ''label'', g)))))))))"

text \<open>
  The test cell of the notebook, for any input string:
  \<^verbatim>\<open>
  init()
  run('[[0.00632,18.0,2.31,0,0.538,6.575,65.2,4.09,1,296,15.3,4.98,24.0]]')
  \<close>
  An exception in \<^verbatim>\<open>init\<close> ends the cell.
\<close>

definition test_cell ::
  "('m, 'rdd, 'df) lib \<Rightarrow> 'm globals \<Rightarrow> string \<Rightarrow> (py_exception + pyval) \<times> 'm globals" where
  "test_cell L g inputString =
     (case init L g of
        (Inl e, g') \<Rightarrow> (Inl e, g')
      | (Inr u, g') \<Rightarrow> run L g' inputString)"

section \<open>The library, modelled from the spec\<close>

text \<open>
  The libraries \<open>init\<close> and \<open>run\<close> call are not part of the repository. The
  definitions of this section model them from the spec, as one executable instance of
  \<open>lib\<close>: the request is a JSON array of rows of numbers; the structured table
  reattaches the names and types of the loaded schema to the positional values; a row
  with a different column count than the schema is rejected; the pipeline is the
  formula \<^verbatim>\<open>MEDV~.\<close> of the notebook followed by a regressor, and attaches to each
  row a \<^verbatim>\<open>label\<close> of floating-point type. Tables are lazy, as in Spark: building one
  and transforming it never raise, and the rows are checked when \<open>collect\<close> evaluates
  them.
\<close>

subsection \<open>Reading JSON\<close>

text \<open>
  Modelled from the spec: the tokens of \<^verbatim>\<open>json.loads\<close> (missing: the Python standard
  library), for the fragment scoring requests are written in, arrays of decimal numbers.
\<close>

datatype token = LBRACK | RBRACK | COMMA | NUM string | BAD char

text \<open>Modelled from the spec: the end of a number token of \<^verbatim>\<open>json.loads\<close>.\<close>

fun flush :: "string \<Rightarrow> token list" where
  "flush [] = []"
| "flush (c # cs) = [NUM (c # cs)]"

text \<open>
  Modelled from the spec: the tokenizer of \<^verbatim>\<open>json.loads\<close>; blanks separate tokens,
  any other character is a bad token.
\<close>

fun lex :: "string \<Rightarrow> string \<Rightarrow> token list" where
  "lex b [] = flush b"
| "lex b (c # cs) =
     (if c \<in> set ''0123456789.-'' then lex (b @ [c]) cs
      else if c = CHR '' '' then flush b @ lex [] cs
      else flush b @
        (if c = CHR ''['' then LBRACK
         else if c = CHR '']'' then RBRACK
         else if c = CHR '','' then COMMA
         else BAD c) # lex [] cs)"

text \<open>Modelled from the spec: a non-empty run of decimal digits of a JSON number.\<close>

definition digits_ok :: "string \<Rightarrow> bool" where
  "digits_ok ds = (ds \<noteq> [] \<and> list_all (\<lambda>c. c \<in> set ''0123456789'') ds)"

text \<open>Modelled from the spec: the value of a run of decimal digits.\<close>

definition digits_val :: "string \<Rightarrow> int" where
  "digits_val ds = foldl (\<lambda>n c. 10 * n + (of_char c - 48)) 0 ds"

text \<open>
  Modelled from the spec: a JSON number without sign, read by \<^verbatim>\<open>json.loads\<close> as an
  \<^verbatim>\<open>int\<close> when it has no fraction and as a \<^verbatim>\<open>float\<close> when it has one.
\<close>

definition unsigned_number :: "string \<Rightarrow> pyval option" where
  "unsigned_number b =
     (let ip = takeWhile (\<lambda>c. c \<noteq> CHR ''.'') b;
          rest = dropWhile (\<lambda>c. c \<noteq> CHR ''.'') b
      in if \<not> digits_ok ip \<or> (length ip > 1 \<and> hd ip = CHR ''0'') then None
         else if rest = [] then Some (PInt (digits_val ip))
         else if digits_ok (tl rest)
           then Some (PFloat (digits_val (ip @ tl rest)) (- int (length (tl rest))))
         else None)"

text \<open>Modelled from the spec: the sign of a JSON number.\<close>

fun negate :: "pyval \<Rightarrow> pyval" where
  "negate (PInt n) = PInt (- n)"
| "negate (PFloat m e) = PFloat (- m) e"
| "negate v = v"

text \<open>Modelled from the spec: a JSON number, with its optional sign.\<close>

definition number :: "string \<Rightarrow> pyval option" where
  "number b =
     (case b of
        [] \<Rightarrow> None
      | c # cs \<Rightarrow>
          if c = CHR ''-'' then map_option negate (unsigned_number cs) else unsigned_number b)"

text \<open>
  Modelled from the spec: the position of the JSON reader in an array: at its first
  element, after a comma, or after an element.
\<close>

datatype pmode = First | Next | After

text \<open>
  Modelled from the spec: the JSON reader. It keeps a stack of the arrays still open,
  innermost first, each with its elements so far in reverse; the bottom frame receives
  the top-level value.
\<close>

fun parse :: "pmode \<Rightarrow> pyval list list \<Rightarrow> token list \<Rightarrow> pyval option" where
  "parse m st [] = (case (m, st) of (After, [[v]]) \<Rightarrow> Some v | _ \<Rightarrow> None)"
| "parse m st (t # ts) =
     (case t of
        LBRACK \<Rightarrow> if m = After then None else parse First ([] # st) ts
      | NUM b \<Rightarrow>
          if m = After then None
          else (case (number b, st) of
                  (Some v, acc # st') \<Rightarrow> parse After ((v # acc) # st') ts
                | _ \<Rightarrow> None)
      | RBRACK \<Rightarrow>
          if m = Next then None
          else (case st of
                  acc # outer # st' \<Rightarrow> parse After ((PList (rev acc) # outer) # st') ts
                | _ \<Rightarrow> None)
      | COMMA \<Rightarrow> if m = After \<and> length st > 1 then parse Next st ts else None
      | BAD c \<Rightarrow> None)"

text \<open>
  Modelled from the spec: \<^verbatim>\<open>json.loads\<close>, which parses the request to a sequence of
  rows and raises \<^verbatim>\<open>ValueError\<close> on a string that is not JSON.
\<close>

definition demo_loads :: "string \<Rightarrow> py_exception + pyval" where
  "demo_loads s =
     (case parse Next [[]] (lex [] s) of
        None \<Rightarrow> Inl (ValueError ''No JSON object could be decoded'')
      | Some v \<Rightarrow> Inr v)"

subsection \<open>Tables\<close>

text \<open>
  Modelled from the spec: \<^verbatim>\<open>sc.parallelize\<close> (missing: PySpark), which distributes the
  elements of a list and raises \<^verbatim>\<open>TypeError\<close> on a value that is not iterable.
\<close>

definition demo_parallelize :: "pyval \<Rightarrow> py_exception + pyval list" where
  "demo_parallelize v =
     (case v of PList xs \<Rightarrow> Inr xs | _ \<Rightarrow> Inl (TypeError ''object is not iterable''))"

text \<open>
  Modelled from the spec: a Spark DataFrame (missing: PySpark). It is lazy: it holds
  the schema, the raw rows it was built from, whether verification was asked for, and
  the label column of the formula once a pipeline has been applied.
\<close>

record demo_df =
  df_schema :: struct_type
  df_rows :: "pyval list"
  df_verify :: bool
  df_label :: "string option"

text \<open>
  Modelled from the spec: \<^verbatim>\<open>spark.createDataFrame\<close> on an RDD with a given schema
  (missing: PySpark). Nothing is evaluated and nothing is checked when the table is
  built, with or without \<open>verifySchema\<close>.
\<close>

definition demo_createDataFrame ::
  "pyval list \<Rightarrow> struct_type \<Rightarrow> pyval \<Rightarrow> bool \<Rightarrow> py_exception + demo_df" where
  "demo_createDataFrame rdd sch samplingRatio verifySchema =
     Inr \<lparr>df_schema = sch, df_rows = rdd, df_verify = verifySchema, df_label = None\<rparr>"

text \<open>
  Modelled from the spec: the typed columns of the schema artifact. A column of type
  \<^verbatim>\<open>double\<close> holds a float, a column of type \<^verbatim>\<open>integer\<close> an int.
\<close>

fun cell_has_type :: "string \<Rightarrow> pyval \<Rightarrow> bool" where
  "cell_has_type t (PFloat m e) = (t = ''double'')"
| "cell_has_type t (PInt n) = (t = ''integer'')"
| "cell_has_type t v = False"

text \<open>
  Modelled from the spec: the evaluation of one raw row against the schema, where the
  names and types of the columns are reattached to the positional values. A row with
  a different column count than the schema is rejected, by the verification of PySpark
  when it was asked for and by the conversion of the row otherwise; so is a row that is
  not a list and a cell that has not the type of its column.
\<close>

definition eval_row :: "struct_type \<Rightarrow> bool \<Rightarrow> pyval \<Rightarrow> py_exception + row" where
  "eval_row sch verify r =
     (case r of
        PList cells \<Rightarrow>
          if length cells \<noteq> length sch then
            Inl (Py4JJavaError
              (if verify then ''Length of object does not match with length of fields''
               else ''Input row does not have expected number of values required by the schema''))
          else if \<not> list_all (\<lambda>(f, c). cell_has_type (field_type f) c) (zip sch cells) then
            Inl (Py4JJavaError ''value does not have the type of its column'')
          else Inr (zip (map field_name sch) cells)
      | _ \<Rightarrow> Inl (Py4JJavaError ''StructType can not accept object''))"

text \<open>
  Modelled from the spec: the evaluation of all rows of a table, in order; the first
  rejected row rejects the table.
\<close>

fun eval_rows :: "struct_type \<Rightarrow> bool \<Rightarrow> pyval list \<Rightarrow> py_exception + row list" where
  "eval_rows sch verify [] = Inr []"
| "eval_rows sch verify (r # rs) =
     (case eval_row sch verify r of
        Inl e \<Rightarrow> Inl e
      | Inr x \<Rightarrow>
          (case eval_rows sch verify rs of
             Inl e \<Rightarrow> Inl e
           | Inr xs \<Rightarrow> Inr (x # xs)))"

subsection \<open>The pipeline\<close>

text \<open>
  Modelled from the spec: \<^verbatim>\<open>PipelineModel.transform\<close> (missing: PySpark). A loaded
  model is the label column of its formula; applying it to a table is lazy.
\<close>

definition demo_transform :: "string \<Rightarrow> demo_df \<Rightarrow> py_exception + demo_df" where
  "demo_transform m df = Inr (df\<lparr>df_label := Some m\<rparr>)"

text \<open>Modelled from the spec: the cast of the label to the continuous type of the target.\<close>

fun to_double :: "pyval \<Rightarrow> pyval" where
  "to_double (PInt n) = PFloat n 0"
| "to_double v = v"

text \<open>
  Modelled from the spec: the columns the pipeline attaches to an evaluated row: the
  \<^verbatim>\<open>label\<close>, which is the label column of the formula as a float when the row has that
  column, and the \<^verbatim>\<open>prediction\<close> of the regressor, whose value is left open by the
  spec and is a constant here.
\<close>

definition add_label :: "string \<Rightarrow> row \<Rightarrow> row" where
  "add_label lab r =
     r @ (case map_of r lab of None \<Rightarrow> [] | Some v \<Rightarrow> [(''label'', to_double v)])
       @ [(''prediction'', PFloat 0 0)]"

text \<open>
  Modelled from the spec: \<^verbatim>\<open>DataFrame.collect\<close> (missing: PySpark), which evaluates the
  rows of the table and the columns of the pipeline applied to it.
\<close>

definition demo_collect :: "demo_df \<Rightarrow> py_exception + row list" where
  "demo_collect df =
     (case eval_rows (df_schema df) (df_verify df) (df_rows df) of
        Inl e \<Rightarrow> Inl e
      | Inr rows \<Rightarrow>
          Inr (case df_label df of None \<Rightarrow> rows | Some lab \<Rightarrow> map (add_label lab) rows))"

subsection \<open>Artifacts\<close>

text \<open>
  Modelled from the spec: \<^verbatim>\<open>PipelineModel.load\<close> and \<^verbatim>\<open>azuremlutilities.loadSchema\<close>
  (missing: PySpark and the \<^verbatim>\<open>azuremlcli\<close> package) over a set of persisted
  artifacts; a missing artifact makes the load raise.
\<close>

definition demo_load :: "(string \<rightharpoonup> 'a) \<Rightarrow> string \<Rightarrow> py_exception + 'a" where
  "demo_load artifacts p =
     (case artifacts p of None \<Rightarrow> Inl (IOError p) | Some a \<Rightarrow> Inr a)"

text \<open>
  Modelled from the spec: the library of the scoring adapter over given model and
  schema artifacts (missing: the Python standard library, PySpark and \<^verbatim>\<open>azuremlcli\<close>).
\<close>

definition demo_lib ::
  "(string \<rightharpoonup> string) \<Rightarrow> (string \<rightharpoonup> struct_type) \<Rightarrow> (string, pyval list, demo_df) lib" where
  "demo_lib models schemas =
     \<lparr>PipelineModel_load = demo_load models,
      loadSchema = demo_load schemas,
      json_loads = demo_loads,
      parallelize = demo_parallelize,
      createDataFrame = demo_createDataFrame,
      transform = demo_transform,
      collect = demo_collect\<rparr>"

text \<open>
  Modelled from the spec: the schema artifact (missing: \<^verbatim>\<open>webserviceschema.json\<close>, saved
  from the housing data), thirteen named columns typed like the cells of the request of
  the test cell, the last one the continuous target \<^verbatim>\<open>MEDV\<close>.
\<close>

definition demo_schema :: struct_type where
  "demo_schema =
     map (\<lambda>(n, t). \<lparr>field_name = n, field_type = t, field_nullable = True\<rparr>)
       [(''CRIM'', ''double''), (''ZN'', ''double''), (''INDUS'', ''double''),
        (''CHAS'', ''integer''), (''NOX'', ''double''), (''RM'', ''double''),
        (''AGE'', ''double''), (''DIS'', ''double''), (''RAD'', ''integer''),
        (''TAX'', ''integer''), (''PTRATIO'', ''double''), (''LSTAT'', ''double''),
        (''MEDV'', ''double'')]"

text \<open>
  Modelled from the spec: the model artifact (missing: the directory \<^verbatim>\<open>housing.model\<close>),
  the pipeline fitted with the formula \<^verbatim>\<open>MEDV~.\<close>.
\<close>

definition demo_models :: "string \<rightharpoonup> string" where
  "demo_models = [''housing.model'' \<mapsto> ''MEDV'']"

text \<open>Modelled from the spec: the schema artifact at its path.\<close>

definition demo_schemas :: "string \<rightharpoonup> struct_type" where
  "demo_schemas = [''webserviceschema.json'' \<mapsto> demo_schema]"

text \<open>Modelled from the spec: the library over the two artifacts the notebook saves.\<close>

definition demo :: "(string, pyval list, demo_df) lib" where
  "demo = demo_lib demo_models demo_schemas"

section \<open>States and requests\<close>

text \<open>The state a successful \<open>init\<close> leaves over these artifacts.\<close>

definition loaded :: "string globals" where
  "loaded = \<lparr>pipeline = Some ''MEDV'', inputSchema = Some demo_schema\<rparr>"

text \<open>The request of the notebook's test cell, and its one row.\<close>

definition sample :: string where
  "sample = ''[[0.00632,18.0,2.31,0,0.538,6.575,65.2,4.09,1,296,15.3,4.98,24.0]]''"

definition sample_row :: pyval where
  "sample_row =
     PList [PFloat 632 (-5), PFloat 180 (-1), PFloat 231 (-2), PInt 0, PFloat 538 (-3),
            PFloat 6575 (-3), PFloat 652 (-1), PFloat 409 (-2), PInt 1, PInt 296,
            PFloat 153 (-1), PFloat 498 (-2), PFloat 240 (-1)]"

text \<open>A request of two rows.\<close>

definition two_rows :: string where
  "two_rows =
     ''[[0.02731,0.0,7.07,0,0.469,6.421,78.9,4.9671,2,242,17.8,9.14,21.5],'' @
     ''[0.02729,0.0,7.07,0,0.469,7.185,61.1,4.9671,2,242,17.8,4.03,34.7]]''"

definition first_row :: pyval where
  "first_row =
     PList [PFloat 2731 (-5), PFloat 0 (-1), PFloat 707 (-2), PInt 0, PFloat 469 (-3),
            PFloat 6421 (-3), PFloat 789 (-1), PFloat 49671 (-4), PInt 2, PInt 242,
            PFloat 178 (-1), PFloat 914 (-2), PFloat 215 (-1)]"

definition second_row :: pyval where
  "second_row =
     PList [PFloat 2729 (-5), PFloat 0 (-1), PFloat 707 (-2), PInt 0, PFloat 469 (-3),
            PFloat 7185 (-3), PFloat 611 (-1), PFloat 49671 (-4), PInt 2, PInt 242,
            PFloat 178 (-1), PFloat 403 (-2), PFloat 347 (-1)]"

text \<open>
  A request whose row has fourteen cells: the row of the test cell with one more
  column before the last two.
\<close>

definition wide :: string where
  "wide = ''[[0.00632,18.0,2.31,0,0.538,6.575,65.2,4.09,1,296,15.3,396.9,4.98,24.0]]''"

definition wide_row :: pyval where
  "wide_row =
     PList [PFloat 632 (-5), PFloat 180 (-1), PFloat 231 (-2), PInt 0, PFloat 538 (-3),
            PFloat 6575 (-3), PFloat 652 (-1), PFloat 409 (-2), PInt 1, PInt 296,
            PFloat 153 (-1), PFloat 3969 (-1), PFloat 498 (-2), PFloat 240 (-1)]"


section \<open>Predicates of the properties\<close>

text \<open>
  A parsed request supplies a row whose number of cells is not the number of columns
  of the schema.
\<close>

definition column_count_differs :: "struct_type \<Rightarrow> pyval \<Rightarrow> bool" where
  "column_count_differs sch v =
     (case v of
        PList rows \<Rightarrow>
          list_ex (\<lambda>r. case r of PList cells \<Rightarrow> length cells \<noteq> length sch | _ \<Rightarrow> False) rows
      | _ \<Rightarrow> False)"

text \<open>
  A raw row matches the schema exactly: it is a list with one cell for each column,
  each of the type of its column.
\<close>

definition matches_schema :: "struct_type \<Rightarrow> pyval \<Rightarrow> bool" where
  "matches_schema sch r =
     (case r of
        PList cells \<Rightarrow>
          length cells = length sch
          \<and> list_all (\<lambda>(f, c). cell_has_type (field_type f) c) (zip sch cells)
      | _ \<Rightarrow> False)"

section \<open>Basic facts\<close>

lemma run_state: "snd (run L g s) = g"
  by (simp add: run_def split: sum.splits option.splits)

lemma run_runs_state: "foldl (\<lambda>g s. snd (run L g s)) g ss = g"
  by (induction ss) (simp_all add: run_state)

lemma run_no_load:
  "run (L\<lparr>PipelineModel_load := f, loadSchema := h\<rparr>) g s = run L g s"
  by (simp add: run_def cong: sum.case_cong option.case_cong)

lemma run_outcome_cong:
  "pipeline g = pipeline g' \<Longrightarrow> inputSchema g = inputSchema g'
   \<Longrightarrow> fst (run L g s) = fst (run L g' s)"
  by (simp add: run_def split: sum.splits option.splits)

lemma init_outcome: "fst (init L g) = fst (init L g')"
  by (simp add: init_def Let_def split: sum.splits)

lemma init_success:
  "PipelineModel_load L ''housing.model'' = Inr m
   \<Longrightarrow> loadSchema L ''webserviceschema.json'' = Inr sch
   \<Longrightarrow> init L g = (Inr (), g\<lparr>pipeline := Some m, inputSchema := Some sch\<rparr>)"
  by (simp add: init_def)

lemma init_success_state:
  "fst (init L g) = Inr u \<Longrightarrow>
   \<exists>m sch. PipelineModel_load L ''housing.model'' = Inr m
     \<and> loadSchema L ''webserviceschema.json'' = Inr sch
     \<and> snd (init L g) = g\<lparr>pipeline := Some m, inputSchema := Some sch\<rparr>"
  by (auto simp add: init_def Let_def split: sum.splits)

lemma test_cell_alt:
  "test_cell L g s =
     (case fst (init L g) of
        Inl e \<Rightarrow> (Inl e, snd (init L g))
      | Inr u \<Rightarrow> run L (snd (init L g)) s)"
  by (simp add: test_cell_def split: prod.splits sum.splits)

text \<open>
  The outcome of the test cell does not depend on the state it starts from: \<open>init\<close>
  either raises before \<open>run\<close> is reached, or overwrites both variables.
\<close>

lemma test_cell_outcome: "fst (test_cell L g s) = fst (test_cell L g' s)"
proof (cases "fst (init L g)")
  case (Inl e)
  moreover from Inl have "fst (init L g') = Inl e"
    using init_outcome[of L g' g] by simp
  ultimately show ?thesis
    by (simp add: test_cell_alt)
next
  case (Inr u)
  from init_success_state[OF Inr] obtain m sch where
    a: "snd (init L g) = g\<lparr>pipeline := Some m, inputSchema := Some sch\<rparr>"
    and m: "PipelineModel_load L ''housing.model'' = Inr m"
    and sch: "loadSchema L ''webserviceschema.json'' = Inr sch" by blast
  have Inr': "fst (init L g') = Inr u"
    using Inr init_outcome[of L g' g] by simp
  from init_success_state[OF Inr'] m sch have
    b: "snd (init L g') = g'\<lparr>pipeline := Some m, inputSchema := Some sch\<rparr>" by auto
  have "fst (run L (snd (init L g)) s) = fst (run L (snd (init L g')) s)"
    by (rule run_outcome_cong) (simp_all add: a b)
  with Inr Inr' show ?thesis
    by (simp add: test_cell_alt)
qed

section \<open>Facts about the modelled library\<close>

lemmas reader_defs = demo_loads_def number_def unsigned_number_def digits_ok_def digits_val_def

lemma demo_fields:
  "PipelineModel_load (demo_lib ms ss) = demo_load ms"
  "loadSchema (demo_lib ms ss) = demo_load ss"
  "json_loads (demo_lib ms ss) = demo_loads"
  "parallelize (demo_lib ms ss) = demo_parallelize"
  "createDataFrame (demo_lib ms ss) = demo_createDataFrame"
  "transform (demo_lib ms ss) = demo_transform"
  "collect (demo_lib ms ss) = demo_collect"
  by (simp_all add: demo_lib_def)

lemmas table_defs = demo_parallelize_def demo_createDataFrame_def demo_transform_def
  demo_collect_def eval_row_def add_label_def

lemma eval_rows_rejects:
  "list_ex (\<lambda>r. case r of PList cells \<Rightarrow> length cells \<noteq> length sch | _ \<Rightarrow> False) rows
   \<Longrightarrow> \<exists>e. eval_rows sch verify rows = Inl e"
proof (induction rows)
  case Nil
  then show ?case by simp
next
  case (Cons r rows)
  show ?case
  proof (cases "eval_row sch verify r")
    case (Inl e)
    then show ?thesis by simp
  next
    case (Inr x)
    then have "\<not> (case r of PList cells \<Rightarrow> length cells \<noteq> length sch | _ \<Rightarrow> False)"
      by (auto simp add: eval_row_def split: pyval.splits if_splits)
    with Cons.prems have "list_ex (\<lambda>r. case r of PList cells \<Rightarrow> length cells \<noteq> length sch | _ \<Rightarrow> False) rows"
      by simp
    from Cons.IH[OF this] obtain e where "eval_rows sch verify rows = Inl e" by blast
    with Inr show ?thesis by simp
  qed
qed

lemma eval_row_matches:
  "matches_schema sch r \<Longrightarrow>
   \<exists>cells. r = PList cells \<and> length cells = length sch
     \<and> list_all (\<lambda>(f, c). cell_has_type (field_type f) c) (zip sch cells)
     \<and> eval_row sch verify r = Inr (zip (map field_name sch) cells)"
  by (auto simp add: matches_schema_def eval_row_def split: pyval.splits)

lemma eval_rows_matches:
  "list_all (matches_schema sch) rows \<Longrightarrow>
   \<exists>xs. eval_rows sch verify rows = Inr xs \<and> length xs = length rows"
proof (induction rows)
  case Nil
  then show ?case by simp
next
  case (Cons r rows)
  then obtain xs where xs: "eval_rows sch verify rows = Inr xs" "length xs = length rows"
    by auto
  from Cons.prems have "matches_schema sch r" by simp
  from eval_row_matches[OF this] obtain cells where
    "eval_row sch verify r = Inr (zip (map field_name sch) cells)" by blast
  with xs show ?case by simp
qed

lemma typed_cell_to_double: "cell_has_type t c \<Longrightarrow> \<exists>m e. to_double c = PFloat m e"
  by (cases c) simp_all

lemma typed_column_lookup:
  "length cells = length sch
   \<Longrightarrow> list_all (\<lambda>(f, c). cell_has_type (field_type f) c) (zip sch cells)
   \<Longrightarrow> lab \<in> set (map field_name sch)
   \<Longrightarrow> \<exists>c t. map_of (zip (map field_name sch) cells) lab = Some c \<and> cell_has_type t c"
proof (induction cells sch rule: list_induct2)
  case Nil
  then show ?case by simp
next
  case (Cons c cells f sch)
  show ?case
  proof (cases "field_name f = lab")
    case True
    with Cons.prems show ?thesis by auto
  next
    case False
    with Cons.prems have "lab \<in> set (map field_name sch)" by auto
    moreover from Cons.prems have
      "list_all (\<lambda>(f, c). cell_has_type (field_type f) c) (zip sch cells)" by simp
    ultimately obtain c' t where
      "map_of (zip (map field_name sch) cells) lab = Some c'" "cell_has_type t c'"
      using Cons.IH by blast
    with False show ?thesis by auto
  qed
qed

lemma map_of_zip_absent:
  "k \<notin> set ns \<Longrightarrow> map_of (zip ns cells) k = None"
  by (auto simp add: map_of_eq_None_iff dest: set_zip_leftD)

lemma labelled_row_is_float:
  assumes "matches_schema sch r" and "lab \<in> set (map field_name sch)"
    and "''label'' \<notin> set (map field_name sch)"
    and "eval_row sch verify r = Inr x"
  shows "\<exists>m e. map_of (add_label lab x) ''label'' = Some (PFloat m e)"
proof -
  from eval_row_matches[OF assms(1), of verify] obtain cells where
    c: "length cells = length sch"
       "list_all (\<lambda>(f, c). cell_has_type (field_type f) c) (zip sch cells)"
    and "eval_row sch verify r = Inr (zip (map field_name sch) cells)"
    by blast
  with assms(4) have x: "x = zip (map field_name sch) cells"
    by simp
  from typed_column_lookup[OF c(1) c(2) assms(2)] obtain v t where
    v: "map_of x lab = Some v" "cell_has_type t v" using x by blast
  from typed_cell_to_double[OF v(2)] obtain m e where "to_double v = PFloat m e" by blast
  moreover have "map_of x ''label'' = None"
    using assms(3) x by (simp add: map_of_zip_absent)
  ultimately show ?thesis
    using v(1) by (simp add: add_label_def map_add_def)
qed

lemma loads_sample: "demo_loads sample = Inr (PList [sample_row])"
  by (simp add: reader_defs sample_def sample_row_def)

lemma loads_two_rows: "demo_loads two_rows = Inr (PList [first_row, second_row])"
  by (simp add: reader_defs two_rows_def first_row_def second_row_def)

lemma loads_wide: "demo_loads wide = Inr (PList [wide_row])"
  by (simp add: reader_defs wide_def wide_row_def)

lemma loads_truncated:
  "demo_loads ''[[1.0'' = Inl (ValueError ''No JSON object could be decoded'')"
  by (simp add: reader_defs)

lemma loads_empty: "demo_loads ''[]'' = Inr (PList [])"
  by (simp add: reader_defs)

lemma loads_scalar: "demo_loads ''5'' = Inr (PInt 5)"
  by (simp add: reader_defs)

lemma loads_flat: "demo_loads ''[5]'' = Inr (PList [PInt 5])"
  by (simp add: reader_defs)

lemma init_demo: "init demo unbound = (Inr (), loaded)"
  by (simp add: init_def demo_def demo_fields demo_load_def demo_models_def demo_schemas_def
      unbound_def loaded_def)

lemma run_sample: "fst (run demo loaded sample) = Inr (PFloat 240 (-1))"
  by (simp add: run_def demo_def demo_fields loads_sample loaded_def sample_row_def
      demo_schema_def table_defs list_first_def row_getitem_def)

lemma run_wide:
  "fst (run demo loaded wide) =
     Inl (Py4JJavaError
       ''Input row does not have expected number of values required by the schema'')"
  by (simp add: run_def demo_def demo_fields loads_wide loaded_def wide_row_def
      demo_schema_def table_defs)

lemma wide_differs: "column_count_differs demo_schema (PList [wide_row])"
  by (simp add: column_count_differs_def wide_row_def demo_schema_def)

lemma sample_matches: "matches_schema demo_schema sample_row"
  by (simp add: matches_schema_def sample_row_def demo_schema_def)

section \<open>Properties of the adapter\<close>

text \<open>
  C1. When the process-wide variables are bound and the library calls of a scoring call
  succeed, producing one or more output rows of which the first has a \<^verbatim>\<open>label\<close> field,
  \<open>run\<close> returns exactly the value of that field. The rows after the first, \<open>rest\<close>,
  are arbitrary: they never affect the returned value and cause no error.
\<close>

theorem run_returns_first_label:
  assumes "pipeline g = Some m" and "inputSchema g = Some sch"
    and "json_loads L s = Inr v"
    and "parallelize L v = Inr rdd"
    and "createDataFrame L rdd sch PNone False = Inr df"
    and "transform L m df = Inr score"
    and "collect L score = Inr (r # rest)"
    and "map_of r ''label'' = Some x"
  shows "fst (run L g s) = Inr x"
  using assms by (simp add: run_def list_first_def row_getitem_def)

text \<open>A request of two rows: the label of the first output row is returned.\<close>

theorem run_returns_first_label_witness:
  "fst (run demo loaded two_rows) = Inr (PFloat 215 (-1))"
  apply (rule run_returns_first_label)
         apply (simp add: loaded_def)
        apply (simp add: loaded_def)
       apply (simp add: demo_def demo_fields loads_two_rows)
      apply (simp add: demo_def demo_fields demo_parallelize_def)
     apply (simp add: demo_def demo_fields demo_createDataFrame_def)
    apply (simp add: demo_def demo_fields demo_transform_def)
   apply (simp add: demo_def demo_fields demo_collect_def eval_row_def demo_schema_def
      first_row_def second_row_def)
  apply (simp add: add_label_def)
  done

text \<open>
  C2. Determinism across runs. With the library and its artifacts fixed, executing
  \<open>init\<close> and then \<open>run s\<close> a second time, in the state the first execution left,
  has the same outcome as the first; the outcome is the same from any other state
  \<open>g'\<close> of the process-wide variables; and a second \<open>run s\<close> right after the first
  has the outcome of the first.
\<close>

theorem test_cell_deterministic:
  "fst (test_cell L (snd (test_cell L g s)) s) = fst (test_cell L g s)
   \<and> fst (test_cell L g' s) = fst (test_cell L g s)
   \<and> fst (run L (snd (run L g s)) s) = fst (run L g s)"
  using test_cell_outcome[of L "snd (test_cell L g s)" s g] test_cell_outcome[of L g' s g]
  by (simp add: run_state)

theorem test_cell_deterministic_witness:
  "fst (test_cell demo (snd (test_cell demo unbound sample)) sample) = Inr (PFloat 240 (-1))
   \<and> fst (test_cell demo loaded sample) = Inr (PFloat 240 (-1))"
proof -
  have "fst (test_cell demo unbound sample) = Inr (PFloat 240 (-1))"
    by (simp add: test_cell_def init_demo run_sample)
  with test_cell_deterministic[of demo unbound sample loaded] show ?thesis
    by simp
qed

text \<open>
  C3. Every failure point propagates unchanged to the caller. An exception \<open>e\<close> raised
  by the model load or by the schema load is the outcome of \<open>init\<close>; an exception
  raised by \<^verbatim>\<open>json.loads\<close>, \<^verbatim>\<open>parallelize\<close>, \<^verbatim>\<open>createDataFrame\<close>, \<^verbatim>\<open>transform\<close> or
  \<^verbatim>\<open>collect\<close> is the outcome of \<open>run\<close>; an empty result set makes \<open>run\<close> raise
  \<^verbatim>\<open>IndexError\<close>, a first row without a \<^verbatim>\<open>label\<close> field the \<^verbatim>\<open>ValueError\<close> of the
  row lookup. In no case is a value returned in place of the exception.
\<close>

theorem faults_propagate_uncaught:
  "(PipelineModel_load L ''housing.model'' = Inl e \<longrightarrow> fst (init L g) = Inl e)
   \<and> (PipelineModel_load L ''housing.model'' = Inr m
        \<and> loadSchema L ''webserviceschema.json'' = Inl e
        \<longrightarrow> fst (init L g) = Inl e)
   \<and> (json_loads L s = Inl e \<longrightarrow> fst (run L g s) = Inl e)
   \<and> (json_loads L s = Inr v \<and> parallelize L v = Inl e \<longrightarrow> fst (run L g s) = Inl e)
   \<and> (json_loads L s = Inr v \<and> parallelize L v = Inr rdd \<and> inputSchema g = Some sch
        \<and> createDataFrame L rdd sch PNone False = Inl e \<longrightarrow> fst (run L g s) = Inl e)
   \<and> (json_loads L s = Inr v \<and> parallelize L v = Inr rdd \<and> inputSchema g = Some sch
        \<and> createDataFrame L rdd sch PNone False = Inr df \<and> pipeline g = Some m
        \<and> transform L m df = Inl e \<longrightarrow> fst (run L g s) = Inl e)
   \<and> (json_loads L s = Inr v \<and> parallelize L v = Inr rdd \<and> inputSchema g = Some sch
        \<and> createDataFrame L rdd sch PNone False = Inr df \<and> pipeline g = Some m
        \<and> transform L m df = Inr score \<and> collect L score = Inl e
        \<longrightarrow> fst (run L g s) = Inl e)
   \<and> (json_loads L s = Inr v \<and> parallelize L v = Inr rdd \<and> inputSchema g = Some sch
        \<and> createDataFrame L rdd sch PNone False = Inr df \<and> pipeline g = Some m
        \<and> transform L m df = Inr score \<and> collect L score = Inr []
        \<longrightarrow> fst (run L g s) = Inl IndexError)
   \<and> (json_loads L s = Inr v \<and> parallelize L v = Inr rdd \<and> inputSchema g = Some sch
        \<and> createDataFrame L rdd sch PNone False = Inr df \<and> pipeline g = Some m
        \<and> transform L m df = Inr score \<and> collect L score = Inr (r # rest)
        \<and> map_of r ''label'' = None
        \<longrightarrow> fst (run L g s) = Inl (ValueError ''label''))"
proof (intro conjI impI, goal_cases)
  case 1
  then show ?case by (simp add: init_def)
next
  case 2
  then show ?case by (simp add: init_def)
next
  case 3
  then show ?case by (simp add: run_def)
next
  case 4
  then show ?case by (simp add: run_def)
next
  case 5
  then show ?case by (simp add: run_def)
next
  case 6
  then show ?case by (simp add: run_def)
next
  case 7
  then show ?case by (simp add: run_def)
next
  case 8
  then show ?case by (simp add: run_def list_first_def)
next
  case 9
  then show ?case by (simp add: run_def list_first_def row_getitem_def)
qed

text \<open>
  One request, state or library for each failure point: a missing model, a missing
  schema, a truncated request, a request that is not a list, a table construction that
  raises, a transform that raises, a row that is not a list, a request with no rows,
  and a pipeline whose label column the table does not have.
\<close>

theorem faults_propagate_uncaught_witness:
  "fst (init (demo_lib Map.empty demo_schemas) unbound) = Inl (IOError ''housing.model'')
   \<and> fst (init (demo_lib demo_models Map.empty) unbound) = Inl (IOError ''webserviceschema.json'')
   \<and> fst (run demo loaded ''[[1.0'') = Inl (ValueError ''No JSON object could be decoded'')
   \<and> fst (run demo loaded ''5'') = Inl (TypeError ''object is not iterable'')
   \<and> fst (run (demo\<lparr>createDataFrame :=
                     \<lambda>rdd sch sr verify. Inl (Py4JJavaError ''createDataFrame'')\<rparr>) loaded sample)
       = Inl (Py4JJavaError ''createDataFrame'')
   \<and> fst (run (demo\<lparr>transform := \<lambda>m df. Inl (Py4JJavaError ''transform'')\<rparr>) loaded sample)
       = Inl (Py4JJavaError ''transform'')
   \<and> fst (run demo loaded ''[5]'') = Inl (Py4JJavaError ''StructType can not accept object'')
   \<and> fst (run demo loaded ''[]'') = Inl IndexError
   \<and> fst (run demo \<lparr>pipeline = Some ''PRICE'', inputSchema = Some demo_schema\<rparr> sample)
       = Inl (ValueError ''label'')"
proof (intro conjI)
  note T = faults_propagate_uncaught
  note ev = demo_def demo_fields demo_lib_def demo_load_def loaded_def demo_models_def
    demo_schemas_def loads_sample loads_truncated loads_scalar loads_flat loads_empty
    sample_row_def demo_schema_def table_defs
  show "fst (init (demo_lib Map.empty demo_schemas) unbound) = Inl (IOError ''housing.model'')"
    by (rule T[THEN conjunct1, rule_format]) (simp add: ev)
  show "fst (init (demo_lib demo_models Map.empty) unbound)
          = Inl (IOError ''webserviceschema.json'')"
    by (rule T[THEN conjunct2, THEN conjunct1, rule_format]) (intro conjI, (simp add: ev)+)
  show "fst (run demo loaded ''[[1.0'') = Inl (ValueError ''No JSON object could be decoded'')"
    by (rule T[THEN conjunct2, THEN conjunct2, THEN conjunct1, rule_format]) (simp add: ev)
  show "fst (run demo loaded ''5'') = Inl (TypeError ''object is not iterable'')"
    by (rule T[THEN conjunct2, THEN conjunct2, THEN conjunct2, THEN conjunct1, rule_format])
       (intro conjI, (simp add: ev)+)
  show "fst (run (demo\<lparr>createDataFrame :=
                      \<lambda>rdd sch sr verify. Inl (Py4JJavaError ''createDataFrame'')\<rparr>) loaded sample)
          = Inl (Py4JJavaError ''createDataFrame'')"
    by (rule T[THEN conjunct2, THEN conjunct2, THEN conjunct2, THEN conjunct2, THEN conjunct1,
          rule_format])
       (intro conjI, (simp add: ev)+)
  show "fst (run (demo\<lparr>transform := \<lambda>m df. Inl (Py4JJavaError ''transform'')\<rparr>) loaded sample)
          = Inl (Py4JJavaError ''transform'')"
    by (rule T[THEN conjunct2, THEN conjunct2, THEN conjunct2, THEN conjunct2, THEN conjunct2,
          THEN conjunct1, rule_format])
       (intro conjI, (simp add: ev)+)
  show "fst (run demo loaded ''[5]'') = Inl (Py4JJavaError ''StructType can not accept object'')"
    by (rule T[THEN conjunct2, THEN conjunct2, THEN conjunct2, THEN conjunct2, THEN conjunct2,
          THEN conjunct2, THEN conjunct1, rule_format])
       (intro conjI, (simp add: ev)+)
  show "fst (run demo loaded ''[]'') = Inl IndexError"
    by (rule T[THEN conjunct2, THEN conjunct2, THEN conjunct2, THEN conjunct2, THEN conjunct2,
          THEN conjunct2, THEN conjunct2, THEN conjunct1, rule_format])
       (intro conjI, (simp add: ev)+)
  show "fst (run demo \<lparr>pipeline = Some ''PRICE'', inputSchema = Some demo_schema\<rparr> sample)
          = Inl (ValueError ''label'')"
    by (rule T[THEN conjunct2, THEN conjunct2, THEN conjunct2, THEN conjunct2, THEN conjunct2,
          THEN conjunct2, THEN conjunct2, THEN conjunct2, rule_format])
       (intro conjI, (simp add: ev)+)
qed

text \<open>
  C4, as the code has it. \<open>init\<close> is not atomic. When the model load raises, both
  variables are left as they were. When the model load succeeds and the schema load
  raises, \<open>init\<close> raises with \<^verbatim>\<open>pipeline\<close> already bound to the newly loaded model
  and \<^verbatim>\<open>inputSchema\<close> left as it was.
\<close>

theorem init_failure_state:
  "(PipelineModel_load L ''housing.model'' = Inl e \<longrightarrow> init L g = (Inl e, g))
   \<and> (PipelineModel_load L ''housing.model'' = Inr m
        \<and> loadSchema L ''webserviceschema.json'' = Inl e
        \<longrightarrow> init L g = (Inl e, g\<lparr>pipeline := Some m\<rparr>))"
proof (intro conjI impI)
  assume "PipelineModel_load L ''housing.model'' = Inl e"
  then show "init L g = (Inl e, g)"
    by (simp add: init_def)
next
  assume "PipelineModel_load L ''housing.model'' = Inr m
            \<and> loadSchema L ''webserviceschema.json'' = Inl e"
  then show "init L g = (Inl e, g\<lparr>pipeline := Some m\<rparr>)"
    by (simp add: init_def)
qed

theorem init_failure_state_witness:
  "init (demo_lib Map.empty demo_schemas) unbound = (Inl (IOError ''housing.model''), unbound)
   \<and> init (demo_lib demo_models Map.empty) unbound
       = (Inl (IOError ''webserviceschema.json''), unbound\<lparr>pipeline := Some ''MEDV''\<rparr>)"
proof (intro conjI)
  show "init (demo_lib Map.empty demo_schemas) unbound
          = (Inl (IOError ''housing.model''), unbound)"
    by (rule init_failure_state[THEN conjunct1, rule_format])
       (simp add: demo_fields demo_load_def)
  show "init (demo_lib demo_models Map.empty) unbound
          = (Inl (IOError ''webserviceschema.json''), unbound\<lparr>pipeline := Some ''MEDV''\<rparr>)"
    by (rule init_failure_state[THEN conjunct2, rule_format])
       (simp add: demo_fields demo_load_def demo_models_def)
qed

text \<open>
  C4 as stated fails: with the model artifact present and the schema artifact missing,
  \<open>init\<close> raises in a fresh process and leaves \<^verbatim>\<open>pipeline\<close> newly bound.
\<close>

theorem init_leaves_pipeline_bound:
  "fst (init (demo_lib demo_models Map.empty) unbound) = Inl (IOError ''webserviceschema.json'')
   \<and> pipeline (unbound :: string globals) = None
   \<and> pipeline (snd (init (demo_lib demo_models Map.empty) unbound)) = Some ''MEDV''"
  by (simp add: init_def demo_fields demo_load_def demo_models_def unbound_def)

text \<open>
  C5. Over the library modelled from the spec, every scoring call that supplies a row
  with a different column count than the loaded schema expects is rejected: \<open>run\<close>
  raises and returns no prediction. \<open>run\<close> has no check of its own; the row is
  rejected when \<open>collect\<close> evaluates the table.
\<close>

theorem run_rejects_wrong_column_count:
  assumes "inputSchema g = Some sch"
    and "json_loads (demo_lib ms ss) s = Inr v"
    and "column_count_differs sch v"
  shows "\<exists>e. fst (run (demo_lib ms ss) g s) = Inl e"
proof -
  from assms(3) obtain rows where v: "v = PList rows"
    and bad: "list_ex (\<lambda>r. case r of PList cells \<Rightarrow> length cells \<noteq> length sch | _ \<Rightarrow> False) rows"
    by (auto simp add: column_count_differs_def split: pyval.splits)
  from eval_rows_rejects[OF bad] obtain e where e: "eval_rows sch False rows = Inl e"
    by blast
  show ?thesis
  proof (cases "pipeline g")
    case None
    with assms(1,2) v show ?thesis
      by (simp add: run_def demo_fields demo_parallelize_def demo_createDataFrame_def)
  next
    case (Some m)
    with assms(1,2) v e show ?thesis
      by (simp add: run_def demo_fields demo_parallelize_def demo_createDataFrame_def
          demo_transform_def demo_collect_def)
  qed
qed

text \<open>The request with fourteen cells against the schema of thirteen columns.\<close>

theorem run_rejects_wrong_column_count_witness:
  "length demo_schema = 13
   \<and> column_count_differs demo_schema (PList [wide_row])
   \<and> (\<exists>e. fst (run demo loaded wide) = Inl e)"
proof -
  have h1: "inputSchema loaded = Some demo_schema"
    by (simp add: loaded_def)
  have h2: "json_loads (demo_lib demo_models demo_schemas) wide = Inr (PList [wide_row])"
    by (simp add: demo_fields loads_wide)
  have "length demo_schema = 13"
    by (simp add: demo_schema_def)
  with run_rejects_wrong_column_count[OF h1 h2 wide_differs] wide_differs
  show ?thesis
    by (simp add: demo_def)
qed

text \<open>
  C6. Over the library modelled from the spec, \<open>init\<close> followed by \<open>run\<close> on the
  request of the test cell returns a single floating-point value, from any state
  \<open>prior\<close> of the process. More generally, with the variables bound, every request
  of one or more rows that match the schema exactly returns a floating-point value,
  whichever column of the schema is the label column of the loaded pipeline (no column
  of the schema being itself named \<^verbatim>\<open>label\<close>).
\<close>

theorem run_returns_float:
  "(\<exists>mant ex. fst (test_cell demo prior sample) = Inr (PFloat mant ex))
   \<and> (pipeline g = Some lab \<and> inputSchema g = Some sch
        \<and> lab \<in> set (map field_name sch) \<and> ''label'' \<notin> set (map field_name sch)
        \<and> json_loads (demo_lib ms ss) s = Inr (PList (r # rs))
        \<and> list_all (matches_schema sch) (r # rs)
        \<longrightarrow> (\<exists>mant ex. fst (run (demo_lib ms ss) g s) = Inr (PFloat mant ex)))"
proof (intro conjI impI)
  have "fst (test_cell demo unbound sample) = Inr (PFloat 240 (-1))"
    by (simp add: test_cell_def init_demo run_sample)
  then show "\<exists>mant ex. fst (test_cell demo prior sample) = Inr (PFloat mant ex)"
    using test_cell_outcome[of demo prior sample unbound] by simp
next
  assume a: "pipeline g = Some lab \<and> inputSchema g = Some sch
        \<and> lab \<in> set (map field_name sch) \<and> ''label'' \<notin> set (map field_name sch)
        \<and> json_loads (demo_lib ms ss) s = Inr (PList (r # rs))
        \<and> list_all (matches_schema sch) (r # rs)"
  then have r: "matches_schema sch r" and rs: "list_all (matches_schema sch) rs"
    by simp_all
  from eval_row_matches[OF r, of False] obtain x where x: "eval_row sch False r = Inr x"
    by blast
  from eval_rows_matches[OF rs, of False] obtain xs where xs: "eval_rows sch False rs = Inr xs"
    by blast
  from a labelled_row_is_float[OF r _ _ x, of lab] obtain mant ex where
    l: "map_of (add_label lab x) ''label'' = Some (PFloat mant ex)"
    by blast
  from a x xs l have "fst (run (demo_lib ms ss) g s) = Inr (PFloat mant ex)"
    by (simp add: run_def demo_fields demo_parallelize_def demo_createDataFrame_def
        demo_transform_def demo_collect_def list_first_def row_getitem_def)
  then show "\<exists>mant ex. fst (run (demo_lib ms ss) g s) = Inr (PFloat mant ex)"
    by blast
qed

text \<open>
  The test cell in a fresh process, and the request of two rows in the loaded state.
\<close>

theorem run_returns_float_witness:
  "(\<exists>mant ex. fst (test_cell demo unbound sample) = Inr (PFloat mant ex))
   \<and> (\<exists>mant ex. fst (run demo loaded two_rows) = Inr (PFloat mant ex))"
proof -
  have h: "pipeline loaded = Some ''MEDV'' \<and> inputSchema loaded = Some demo_schema
        \<and> ''MEDV'' \<in> set (map field_name demo_schema)
        \<and> ''label'' \<notin> set (map field_name demo_schema)
        \<and> json_loads (demo_lib demo_models demo_schemas) two_rows
            = Inr (PList (first_row # [second_row]))
        \<and> list_all (matches_schema demo_schema) (first_row # [second_row])"
    by (simp add: loaded_def demo_schema_def demo_fields loads_two_rows first_row_def
        second_row_def matches_schema_def)
  note T = run_returns_float[where prior = unbound and g = loaded and ms = demo_models
      and ss = demo_schemas and s = two_rows and r = first_row and rs = "[second_row]"
      and lab = "''MEDV''" and sch = demo_schema]
  from T[THEN conjunct1] T[THEN conjunct2, rule_format, OF h]
  show ?thesis
    by (simp add: demo_def)
qed

text \<open>
  C7. Frame property of \<open>run\<close>. A scoring call leaves the process-wide variables as
  they were, whether it returns or raises, and so does any sequence \<open>ss\<close> of scoring
  calls. \<open>run\<close> never calls a loader: replacing both loaders of the library changes
  nothing in a scoring call. After a successful \<open>init\<close> and any sequence of scoring
  calls, the variables hold exactly the model and schema that \<open>init\<close> loaded.
\<close>

theorem run_frame:
  "snd (run L g s) = g
   \<and> foldl (\<lambda>g s. snd (run L g s)) g ss = g
   \<and> run (L\<lparr>PipelineModel_load := f, loadSchema := h\<rparr>) g s = run L g s
   \<and> (PipelineModel_load L ''housing.model'' = Inr m
        \<and> loadSchema L ''webserviceschema.json'' = Inr sch
        \<longrightarrow> foldl (\<lambda>g s. snd (run L g s)) (snd (init L g)) ss
              = g\<lparr>pipeline := Some m, inputSchema := Some sch\<rparr>)"
proof (intro conjI impI)
  show "snd (run L g s) = g"
    by (rule run_state)
  show "foldl (\<lambda>g s. snd (run L g s)) g ss = g"
    by (rule run_runs_state)
  show "run (L\<lparr>PipelineModel_load := f, loadSchema := h\<rparr>) g s = run L g s"
    by (rule run_no_load)
next
  assume "PipelineModel_load L ''housing.model'' = Inr m
            \<and> loadSchema L ''webserviceschema.json'' = Inr sch"
  then have "snd (init L g) = g\<lparr>pipeline := Some m, inputSchema := Some sch\<rparr>"
    by (simp add: init_success)
  then show "foldl (\<lambda>g s. snd (run L g s)) (snd (init L g)) ss
               = g\<lparr>pipeline := Some m, inputSchema := Some sch\<rparr>"
    by (simp only: run_runs_state)
qed

text \<open>
  After \<open>init\<close>, a scoring call that returns, one that scores a wide row and one that
  raises leave the loaded state in place.
\<close>

theorem run_frame_witness:
  "snd (run demo loaded sample) = loaded
   \<and> foldl (\<lambda>g s. snd (run demo g s)) (snd (init demo unbound)) [sample, wide, ''[[1.0'']
       = loaded"
proof -
  have l: "PipelineModel_load demo ''housing.model'' = Inr ''MEDV''
             \<and> loadSchema demo ''webserviceschema.json'' = Inr demo_schema"
    by (simp add: demo_def demo_fields demo_load_def demo_models_def demo_schemas_def)
  have u: "unbound\<lparr>pipeline := Some ''MEDV'', inputSchema := Some demo_schema\<rparr> = loaded"
    by (simp add: unbound_def loaded_def)
  note T = run_frame[where L = demo and m = "''MEDV''" and sch = demo_schema]
  from T[where g = loaded and s = sample, THEN conjunct1]
    T[where g = unbound and ss = "[sample, wide, ''[[1.0'']", THEN conjunct2, THEN conjunct2,
      THEN conjunct2, rule_format, OF l]
  show ?thesis
    by (simp only: u simp_thms)
qed



text \<open>
  C10, as the code has it. While \<^verbatim>\<open>pipeline\<close> or \<^verbatim>\<open>inputSchema\<close> is unbound, \<open>run\<close>
  never returns a value and never binds either variable. \<^verbatim>\<open>json.loads\<close> and
  \<^verbatim>\<open>parallelize\<close> run before any of the two names is resolved, so an exception of
  theirs is the outcome; when they succeed, the outcome is the \<^verbatim>\<open>NameError\<close> for
  \<^verbatim>\<open>inputSchema\<close> if that name is unbound, and the \<^verbatim>\<open>NameError\<close> for \<^verbatim>\<open>pipeline\<close>
  if \<^verbatim>\<open>inputSchema\<close> is bound and \<open>createDataFrame\<close> returns.
\<close>

theorem run_before_init:
  assumes "pipeline g = None \<or> inputSchema g = None"
  shows "isl (fst (run L g s)) \<and> snd (run L g s) = g
       \<and> (json_loads L s = Inl e \<longrightarrow> fst (run L g s) = Inl e)
       \<and> (json_loads L s = Inr v \<and> parallelize L v = Inl e \<longrightarrow> fst (run L g s) = Inl e)
       \<and> (json_loads L s = Inr v \<and> parallelize L v = Inr rdd \<and> inputSchema g = None
            \<longrightarrow> fst (run L g s) = Inl (NameError ''inputSchema''))
       \<and> (json_loads L s = Inr v \<and> parallelize L v = Inr rdd \<and> inputSchema g = Some sch
            \<and> createDataFrame L rdd sch PNone False = Inr df
            \<longrightarrow> fst (run L g s) = Inl (NameError ''pipeline''))"
  using assms
  by (auto simp add: run_def split: sum.splits option.splits)

text \<open>
  Before \<open>init\<close>: the request of the test cell, a truncated request and a request that
  is not a list; and the request of the test cell with only \<^verbatim>\<open>inputSchema\<close> bound.
\<close>

theorem run_before_init_witness:
  "isl (fst (run demo unbound sample))
   \<and> snd (run demo unbound sample) = unbound
   \<and> fst (run demo unbound sample) = Inl (NameError ''inputSchema'')
   \<and> fst (run demo unbound ''[[1.0'') = Inl (ValueError ''No JSON object could be decoded'')
   \<and> fst (run demo unbound ''5'') = Inl (TypeError ''object is not iterable'')
   \<and> fst (run demo \<lparr>pipeline = None, inputSchema = Some demo_schema\<rparr> sample)
       = Inl (NameError ''pipeline'')"
proof -
  have h: "pipeline (unbound :: string globals) = None
             \<or> inputSchema (unbound :: string globals) = None"
    by (simp add: unbound_def)
  have h': "pipeline \<lparr>pipeline = None :: string option, inputSchema = Some demo_schema\<rparr> = None
             \<or> inputSchema \<lparr>pipeline = None :: string option, inputSchema = Some demo_schema\<rparr> = None"
    by simp
  have p: "json_loads demo sample = Inr (PList [sample_row])
             \<and> parallelize demo (PList [sample_row]) = Inr [sample_row]
             \<and> inputSchema (unbound :: string globals) = None"
    by (simp add: demo_def demo_fields loads_sample demo_parallelize_def unbound_def)
  have q: "json_loads demo ''[[1.0'' = Inl (ValueError ''No JSON object could be decoded'')"
    by (simp add: demo_def demo_fields loads_truncated)
  have r: "json_loads demo ''5'' = Inr (PInt 5)
             \<and> parallelize demo (PInt 5) = Inl (TypeError ''object is not iterable'')"
    by (simp add: demo_def demo_fields loads_scalar demo_parallelize_def)
  have t: "json_loads demo sample = Inr (PList [sample_row])
             \<and> parallelize demo (PList [sample_row]) = Inr [sample_row]
             \<and> inputSchema \<lparr>pipeline = None :: string option, inputSchema = Some demo_schema\<rparr>
                 = Some demo_schema
             \<and> createDataFrame demo [sample_row] demo_schema PNone False
                 = Inr \<lparr>df_schema = demo_schema, df_rows = [sample_row], df_verify = False,
                        df_label = None\<rparr>"
    by (simp add: demo_def demo_fields loads_sample demo_parallelize_def
        demo_createDataFrame_def)
  note T = run_before_init[OF h, where L = demo]
  note T' = run_before_init[OF h', where L = demo]
  from T[where s = sample, THEN conjunct1] T[where s = sample, THEN conjunct2, THEN conjunct1]
    T[THEN conjunct2, THEN conjunct2, THEN conjunct2, THEN conjunct2, THEN conjunct1,
      rule_format, OF p]
    T[THEN conjunct2, THEN conjunct2, THEN conjunct1, rule_format, OF q]
    T[THEN conjunct2, THEN conjunct2, THEN conjunct2, THEN conjunct1, rule_format, OF r]
    T'[THEN conjunct2, THEN conjunct2, THEN conjunct2, THEN conjunct2, THEN conjunct2,
      rule_format, OF t]
  show ?thesis
    by (simp only: simp_thms)
qed

text \<open>
  C10 as stated fails: in a process where \<open>init\<close> has not run, a scoring call with a
  truncated request fails with the \<^verbatim>\<open>ValueError\<close> of \<^verbatim>\<open>json.loads\<close>, not with a
  name-resolution error.
\<close>

theorem run_unbound_parse_error:
  "pipeline (unbound :: string globals) = None
   \<and> inputSchema (unbound :: string globals) = None
   \<and> fst (run demo unbound ''[[1.0'') = Inl (ValueError ''No JSON object could be decoded'')"
  by (simp add: run_def demo_def demo_fields loads_truncated unbound_def)

end
